theory Spec2Isabelle
  imports Complex_Main
begin

section \<open>Text: Python strings as lists of code points\<close>

text \<open>
  A Python \<open>str\<close> is a sequence of Unicode code points; it is modelled as a list of
  naturals. The code points the program itself writes are named below.
\<close>

type_synonym ustr = "nat list"

abbreviation (input) NL :: nat where "NL \<equiv> 10"
abbreviation (input) SP :: nat where "SP \<equiv> 32"
abbreviation (input) PLUS :: nat where "PLUS \<equiv> 43"
abbreviation (input) MINUS :: nat where "MINUS \<equiv> 45"
abbreviation (input) ZERO :: nat where "ZERO \<equiv> 48"
abbreviation (input) COLON :: nat where "COLON \<equiv> 58"
abbreviation (input) LBRACKET :: nat where "LBRACKET \<equiv> 91"
abbreviation (input) RBRACKET :: nat where "RBRACKET \<equiv> 93"
abbreviation (input) UNDERSCORE :: nat where "UNDERSCORE \<equiv> 95"

text \<open>Embedding of an ASCII literal, used to write concrete inputs.\<close>

definition u :: "string \<Rightarrow> ustr" where
  "u s = map of_char s"

text \<open>
  The code points that \<open>str.strip()\<close> and \<open>str.split()\<close> treat as whitespace
  (CPython's \<open>_PyUnicode_IsWhitespace\<close>).
\<close>

definition is_space :: "nat \<Rightarrow> bool" where
  "is_space c \<longleftrightarrow>
     (9 \<le> c \<and> c \<le> 13) \<or> (28 \<le> c \<and> c \<le> 32) \<or> c = 133 \<or> c = 160 \<or> c = 5760 \<or>
     (8192 \<le> c \<and> c \<le> 8202) \<or> c = 8232 \<or> c = 8233 \<or> c = 8239 \<or> c = 8287 \<or> c = 12288"

text \<open>\<open>s.strip()\<close>: leading and trailing whitespace removed.\<close>

definition strip :: "ustr \<Rightarrow> ustr" where
  "strip s = rev (dropWhile is_space (rev (dropWhile is_space s)))"

text \<open>\<open>sep in s\<close> and the two halves of \<open>s.split(sep, 1)\<close> when it is.\<close>

definition split1_before :: "nat \<Rightarrow> ustr \<Rightarrow> ustr" where
  "split1_before sep s = takeWhile (\<lambda>c. c \<noteq> sep) s"

definition split1_after :: "nat \<Rightarrow> ustr \<Rightarrow> ustr" where
  "split1_after sep s = drop 1 (dropWhile (\<lambda>c. c \<noteq> sep) s)"

text \<open>\<open>s.split()[0]\<close>: the first whitespace-separated token; IndexError when there is none.\<close>

definition first_token :: "ustr \<Rightarrow> ustr option" where
  "first_token s =
     (let t = dropWhile is_space s
      in if t = [] then None else Some (takeWhile (\<lambda>c. \<not> is_space c) t))"

subsection \<open>Decimal rendering and \<open>int()\<close>\<close>

definition is_digit :: "nat \<Rightarrow> bool" where
  "is_digit c \<longleftrightarrow> ZERO \<le> c \<and> c \<le> 57"

fun dec :: "nat \<Rightarrow> ustr" where
  "dec n = (if n < 10 then [ZERO + n] else dec (n div 10) @ [ZERO + n mod 10])"

declare dec.simps [simp del]

definition pad0 :: "nat \<Rightarrow> ustr \<Rightarrow> ustr" where
  "pad0 w ds = replicate (w - length ds) ZERO @ ds"

text \<open>
  The format spec \<open>03d\<close> of an f-string: sign-aware zero padding to a minimum width
  of three characters.
\<close>

definition fmt_03d :: "int \<Rightarrow> ustr" where
  "fmt_03d k = (if k < 0 then MINUS # pad0 2 (dec (nat (- k))) else pad0 3 (dec (nat k)))"

text \<open>
  \<open>int(s)\<close> on a string: surrounding whitespace ignored, an optional sign, then decimal
  digits, where single underscores may separate digits. \<open>None\<close> is ValueError. Only the
  ASCII digits are modelled; a token written with other Unicode decimal digits is
  taken as not parsable.
\<close>

fun int_digits :: "nat \<Rightarrow> ustr \<Rightarrow> nat option" where
  "int_digits acc [] = Some acc"
| "int_digits acc (c # cs) =
     (if c = UNDERSCORE then
        (case cs of [] \<Rightarrow> None
         | d # _ \<Rightarrow> if is_digit d then int_digits acc cs else None)
      else if is_digit c then int_digits (acc * 10 + (c - ZERO)) cs
      else None)"

definition int_unsigned :: "ustr \<Rightarrow> nat option" where
  "int_unsigned s =
     (case s of [] \<Rightarrow> None
      | c # _ \<Rightarrow> if is_digit c then int_digits 0 s else None)"

definition py_int :: "ustr \<Rightarrow> int option" where
  "py_int s =
     (case strip s of [] \<Rightarrow> None
      | c # r \<Rightarrow>
          if c = MINUS then map_option (\<lambda>n. - int n) (int_unsigned r)
          else if c = PLUS then map_option int (int_unsigned r)
          else map_option int (int_unsigned (c # r)))"

section \<open>Time stamps\<close>

text \<open>
  \<open>Message.ts\<close> is the float returned by \<open>time.time()\<close>; the program only hands it to
  \<open>datetime.fromtimestamp\<close>, whose result depends on the zone of the process. The
  conversion is therefore a parameter \<open>tz\<close> of the model, and \<open>strftime\<close> is written
  out for the two formats the program uses.
\<close>

record datetime =
  year :: nat
  month :: nat
  day :: nat
  hour :: nat
  minute :: nat
  second :: nat

text \<open>\<open>strftime('%H:%M:%S')\<close>, used by \<open>_append_log\<close>.\<close>

definition strftime_hms :: "datetime \<Rightarrow> ustr" where
  "strftime_hms d =
     pad0 2 (dec (hour d)) @ [COLON] @ pad0 2 (dec (minute d)) @ [COLON] @ pad0 2 (dec (second d))"

text \<open>\<open>strftime('%Y-%m-%d %H:%M:%S')\<close>, used by \<open>export_log\<close>.\<close>

definition strftime_full :: "datetime \<Rightarrow> ustr" where
  "strftime_full d =
     pad0 4 (dec (year d)) @ [MINUS] @ pad0 2 (dec (month d)) @ [MINUS] @ pad0 2 (dec (day d))
       @ [SP] @ strftime_hms d"

text \<open>
  One concrete zone, UTC, to run the model on concrete inputs: days since the epoch
  are converted to a civil date of the proleptic Gregorian calendar.
\<close>

definition civil_from_days :: "int \<Rightarrow> nat \<times> nat \<times> nat" where
  "civil_from_days z0 =
     (let z = z0 + 719468;
          era = z div 146097;
          doe = z - era * 146097;
          yoe = (doe - doe div 1460 + doe div 36524 - doe div 146096) div 365;
          doy = doe - (365 * yoe + yoe div 4 - yoe div 100);
          mp = (5 * doy + 2) div 153;
          d = doy - (153 * mp + 2) div 5 + 1;
          m = (if mp < 10 then mp + 3 else mp - 9);
          y = yoe + era * 400 + (if m \<le> 2 then 1 else 0)
      in (nat y, nat m, nat d))"

definition utc_fromtimestamp :: "real \<Rightarrow> datetime" where
  "utc_fromtimestamp t =
     (let s = \<lfloor>t\<rfloor>; r = s mod 86400
      in case civil_from_days (s div 86400) of
           (y, m, d) \<Rightarrow>
             \<lparr>year = y, month = m, day = d, hour = nat (r div 3600),
              minute = nat (r mod 3600 div 60), second = nat (r mod 60)\<rparr>)"

section \<open>Messages and the transcript lines\<close>

text \<open>
  The dataclass \<open>Message\<close>; its fields \<open>id\<close> and \<open>text\<close> are named \<open>msg_id\<close> and
  \<open>m_text\<close> here.
\<close>

record Message =
  msg_id :: int
  ts :: real
  m_text :: ustr

text \<open>The line \<open>_append_log\<close> inserts into the transcript widget, without its newline.\<close>

definition log_line :: "(real \<Rightarrow> datetime) \<Rightarrow> Message \<Rightarrow> ustr" where
  "log_line tz m =
     [LBRACKET] @ fmt_03d (msg_id m) @ [SP] @ strftime_hms (tz (ts m)) @ [RBRACKET, SP] @ m_text m"

text \<open>What one iteration of the loop of \<open>export_log\<close> writes, without and with its newline.\<close>

definition export_line :: "(real \<Rightarrow> datetime) \<Rightarrow> Message \<Rightarrow> ustr" where
  "export_line tz m =
     [LBRACKET] @ fmt_03d (msg_id m) @ [SP] @ strftime_full (tz (ts m)) @ [RBRACKET, SP] @ m_text m"

definition export_text :: "(real \<Rightarrow> datetime) \<Rightarrow> Message list \<Rightarrow> ustr" where
  "export_text tz ms = concat (map (\<lambda>m. export_line tz m @ [NL]) ms)"

text \<open>
  The id that \<open>_ctx_delete\<close> reads at the head of a transcript line: the line must start
  with a bracket and contain a closing one; the first token before the closing bracket,
  without its first character, is given to \<open>int()\<close>. \<open>None\<close> covers both the failed
  test and the swallowed exception.
\<close>

definition line_msg_id :: "ustr \<Rightarrow> int option" where
  "line_msg_id line =
     (if (case line of [] \<Rightarrow> False | c # _ \<Rightarrow> c = LBRACKET) \<and> RBRACKET \<in> set line then
        (case first_token (split1_before RBRACKET line) of
           None \<Rightarrow> None
         | Some tok \<Rightarrow> py_int (drop 1 tok))
      else None)"

section \<open>The speech worker\<close>

text \<open>
  Python exceptions by the classes the handlers of \<open>SpeechWorker.run\<close> tell apart:
  \<open>SystemExit\<close>, an instance of \<open>Exception\<close>, and any other \<open>BaseException\<close>.
\<close>

datatype exn = SystemExit | Exception ustr | BaseException ustr

definition is_Exception :: "exn \<Rightarrow> bool" where
  "is_Exception e = (case e of Exception _ \<Rightarrow> True | _ \<Rightarrow> False)"

text \<open>
  Where the thread of a worker stands: started and before \<open>engine.runAndWait()\<close>,
  inside it, or returned from \<open>run\<close>.
\<close>

datatype tpc = Setup | Waiting | Dead

record SpeechWorker =
  w_text :: ustr
  voice_id :: "ustr option"
  rate :: int
  volume :: real
  stop_flag :: bool
  exc :: "exn option"
  pc :: tpc

definition is_alive :: "SpeechWorker \<Rightarrow> bool" where
  "is_alive w \<longleftrightarrow> pc w \<noteq> Dead"

definition stop :: "SpeechWorker \<Rightarrow> SpeechWorker" where
  "stop w = w\<lparr>stop_flag := True\<rparr>"

text \<open>
  What the engine answers to the calls of lines 35 to 55: \<open>None\<close> when the call returns,
  \<open>Some e\<close> when it raises \<open>e\<close>.
\<close>

record engine_setup =
  init_r :: "exn option"
  voice_r :: "exn option"
  rate_r :: "exn option"
  volume_r :: "exn option"
  connect_r :: "exn option"
  say_r :: "exn option"

text \<open>\<open>try: ... except Exception: pass\<close> around one call.\<close>

definition swallow :: "exn option \<Rightarrow> exn option" where
  "swallow r = (case r of None \<Rightarrow> None | Some e \<Rightarrow> if is_Exception e then None else Some e)"

fun first_raised :: "exn option list \<Rightarrow> exn option" where
  "first_raised [] = None"
| "first_raised (None # rs) = first_raised rs"
| "first_raised (Some e # rs) = Some e"

text \<open>The exception that leaves lines 35 to 55, if any.\<close>

definition run_setup :: "engine_setup \<Rightarrow> SpeechWorker \<Rightarrow> exn option" where
  "run_setup eng w =
     first_raised
       [init_r eng,
        if voice_id w \<noteq> None \<and> voice_id w \<noteq> Some [] then swallow (voice_r eng) else None,
        swallow (rate_r eng),
        swallow (volume_r eng),
        connect_r eng,
        say_r eng]"

text \<open>The callback \<open>on_word\<close> of lines 50 to 52.\<close>

definition on_word :: "SpeechWorker \<Rightarrow> exn option" where
  "on_word w = (if stop_flag w then Some SystemExit else None)"

text \<open>
  The handlers of lines 58 to 65 for an exception \<open>e\<close> that left the body. \<open>bound\<close> says
  whether \<open>engine\<close> was assigned, \<open>h\<close> is what \<open>engine.stop()\<close> on line 61 answers. The
  result is the worker and the exception that leaves \<open>run\<close>, if any.
\<close>

definition run_except :: "bool \<Rightarrow> exn option \<Rightarrow> exn \<Rightarrow> SpeechWorker \<Rightarrow> SpeechWorker \<times> exn option" where
  "run_except bound h e w =
     (case e of
        SystemExit \<Rightarrow> (w, if bound then swallow h else None)
      | Exception x \<Rightarrow> (w\<lparr>exc := Some e\<rparr>, None)
      | BaseException x \<Rightarrow> (w, Some e))"

text \<open>
  The steps of the thread that executes \<open>run\<close>. They are atomic with respect to the
  handlers of the interactive thread, which may set the stop flag between two of them:
  \<^item> \<open>Begin eng h\<close>: lines 35 to 55 with the engine answering \<open>eng\<close>;
  \<^item> \<open>Word h\<close>: the engine reports a started word inside \<open>runAndWait\<close> and \<open>on_word\<close>
    runs; what it raises leaves \<open>runAndWait\<close>;
  \<^item> \<open>Finish r s h\<close>: \<open>runAndWait\<close> ends by itself, returning or raising \<open>r\<close>, and
    \<open>engine.stop()\<close> on line 57 answers \<open>s\<close>.
  In each, \<open>h\<close> is the answer of \<open>engine.stop()\<close> on line 61, should the handler run.
\<close>

datatype tstep =
  Begin engine_setup "exn option"
| Word "exn option"
| Finish "exn option" "exn option" "exn option"

definition leave :: "SpeechWorker \<times> exn option \<Rightarrow> SpeechWorker \<times> exn option" where
  "leave r = ((fst r)\<lparr>pc := Dead\<rparr>, snd r)"

fun thread_step :: "tstep \<Rightarrow> SpeechWorker \<Rightarrow> SpeechWorker \<times> exn option" where
  "thread_step (Begin eng h) w =
     (if pc w = Setup then
        (case run_setup eng w of
           None \<Rightarrow> (w\<lparr>pc := Waiting\<rparr>, None)
         | Some e \<Rightarrow> leave (run_except (init_r eng = None) h e w))
      else (w, None))"
| "thread_step (Word h) w =
     (if pc w = Waiting then
        (case on_word w of
           None \<Rightarrow> (w, None)
         | Some e \<Rightarrow> leave (run_except True h e w))
      else (w, None))"
| "thread_step (Finish r s h) w =
     (if pc w = Waiting then
        (case first_raised [r, s] of
           None \<Rightarrow> (w\<lparr>pc := Dead\<rparr>, None)
         | Some e \<Rightarrow> leave (run_except True h e w))
      else (w, None))"

section \<open>The application\<close>

text \<open>A voice of the engine; \<open>vname\<close> is \<open>None\<close> when the object has no attribute \<open>name\<close>.\<close>

record voice =
  vid :: ustr
  vname :: "ustr option"
  languages :: "ustr list"

fun join_comma :: "ustr list \<Rightarrow> ustr" where
  "join_comma [] = []"
| "join_comma [x] = x"
| "join_comma (x # y # ys) = x @ [44, SP] @ join_comma (y # ys)"

text \<open>The label under which a voice is shown in the combobox.\<close>

definition voice_label :: "voice \<Rightarrow> ustr" where
  "voice_label v =
     (case vname v of None \<Rightarrow> vid v | Some n \<Rightarrow> n)
       @ (if languages v = [] then [] else [SP, SP, 40] @ join_comma (languages v) @ [41])"

text \<open>The three texts \<open>_set_status\<close> is called with, and the message boxes shown.\<close>

datatype status = Idle | Speaking | Stopped

datatype dialog =
  InitFailed exn
| SpeakFailed exn
| ExportNothing
| ExportSaved ustr

text \<open>
  The state of \<open>ChatTTSApp\<close>. Worker objects live in \<open>workers\<close>, and a reference to one
  is its index there: a worker that is no longer the current one still exists while its
  thread runs. \<open>files\<close> and \<open>dialogs\<close> record what was written and shown. The transcript
  widget is not part of the state: the handlers that read a line of it take the line as
  an input.
\<close>

record app =
  voices :: "voice list"
  cmb_voice :: ustr
  sld_rate :: real
  sld_volume :: real
  txt_input :: ustr
  messages :: "Message list"
  auto_speak :: bool
  current_worker :: "nat option"
  next_id :: int
  status :: status
  workers :: "SpeechWorker list"
  dialogs :: "dialog list"
  files :: "(ustr \<times> ustr) list"

text \<open>
  The result of the probe of \<open>__init__\<close>: either it raised, or it gave the voices, the
  default rate and volume, and (lines 96 to 106, not modelled) the default voice id.
\<close>

datatype probe = ProbeFailed exn | Probed "voice list" real real ustr

fun index_of_vid :: "ustr \<Rightarrow> voice list \<Rightarrow> nat \<Rightarrow> nat option" where
  "index_of_vid d [] i = None"
| "index_of_vid d (v # vs) i = (if vid v = d then Some i else index_of_vid d vs (Suc i))"

definition py_int_of_float :: "real \<Rightarrow> int" where
  "py_int_of_float x = (if 0 \<le> x then \<lfloor>x\<rfloor> else \<lceil>x\<rceil>)"

definition init_app :: "probe \<Rightarrow> app" where
  "init_app p =
     (let vs = (case p of ProbeFailed e \<Rightarrow> [] | Probed v r l d \<Rightarrow> v);
          default_rate = (case p of ProbeFailed e \<Rightarrow> 180 | Probed v r l d \<Rightarrow> if r = 0 then 180 else r);
          default_volume = (case p of ProbeFailed e \<Rightarrow> 1 | Probed v r l d \<Rightarrow> if l = 0 then 1 else l);
          default_voice_id = (case p of ProbeFailed e \<Rightarrow> [] | Probed v r l d \<Rightarrow> d)
      in \<lparr>voices = vs,
          cmb_voice =
            (if vs = [] then []
             else voice_label (vs ! (case index_of_vid default_voice_id vs 0 of None \<Rightarrow> 0 | Some i \<Rightarrow> i))),
          sld_rate = default_rate,
          sld_volume = of_int (py_int_of_float (default_volume * 100)),
          txt_input = [],
          messages = [],
          auto_speak = True,
          current_worker = None,
          next_id = 1,
          status = Idle,
          workers = [],
          dialogs = (case p of ProbeFailed e \<Rightarrow> [InitFailed e] | Probed v r l d \<Rightarrow> []),
          files = []\<rparr>)"

subsection \<open>Helpers\<close>

definition current_voice_id :: "app \<Rightarrow> ustr option" where
  "current_voice_id s =
     (if cmb_voice s = [] \<or> voices s = [] then None
      else (case find (\<lambda>v. voice_label v = cmb_voice s) (voices s) of
              Some v \<Rightarrow> Some (vid v)
            | None \<Rightarrow> Some (vid (hd (voices s)))))"

text \<open>\<open>self.txt_input.get('1.0', 'end')\<close>: the content and the final newline of the widget.\<close>

definition txt_input_get :: "app \<Rightarrow> ustr" where
  "txt_input_get s = txt_input s @ [NL]"

subsection \<open>Actions\<close>

text \<open>
  \<open>stop_speaking\<close>. The bounded \<open>join\<close> only waits: what the worker's thread does
  meanwhile are thread steps of their own.
\<close>

definition stop_speaking :: "bool \<Rightarrow> app \<Rightarrow> app" where
  "stop_speaking join s =
     (case current_worker s of
        None \<Rightarrow> s\<lparr>status := Stopped\<rparr>
      | Some i \<Rightarrow>
          if is_alive (workers s ! i)
          then s\<lparr>workers := (workers s)[i := stop (workers s ! i)], status := Stopped\<rparr>
          else s\<lparr>status := Stopped\<rparr>)"

text \<open>Lines 262 to 269 of \<open>_speak_text\<close>: the new worker is constructed, stored and started.\<close>

definition spawn_worker :: "ustr \<Rightarrow> app \<Rightarrow> app" where
  "spawn_worker txt s =
     (let worker =
            \<lparr>w_text = txt,
             voice_id = current_voice_id s,
             rate = py_int_of_float (sld_rate s),
             volume = max 0 (min 1 (sld_volume s / 100)),
             stop_flag = False,
             exc = None,
             pc = Setup\<rparr>
      in s\<lparr>workers := workers s @ [worker],
           current_worker := Some (length (workers s)),
           status := Speaking\<rparr>)"

definition speak_text :: "ustr \<Rightarrow> app \<Rightarrow> app" where
  "speak_text txt s = spawn_worker txt (stop_speaking False s)"

definition send_message :: "real \<Rightarrow> app \<Rightarrow> app" where
  "send_message now s =
     (let txt = strip (txt_input_get s)
      in if txt = [] then s
         else
           (let msg = \<lparr>msg_id = next_id s, ts = now, m_text = txt\<rparr>;
                s1 = s\<lparr>next_id := next_id s + 1, messages := messages s @ [msg]\<rparr>
            in if auto_speak s1 then speak_text txt s1 else s1))"

definition replay_last :: "app \<Rightarrow> app" where
  "replay_last s = (if messages s = [] then s else speak_text (m_text (last (messages s))) s)"

text \<open>
  \<open>export_log\<close>: \<open>path\<close> is what the file dialog returns, empty when it was dismissed;
  \<open>io_ok\<close> says whether opening and writing the file succeeds (otherwise the exception
  leaves the handler and nothing else happens).
\<close>

definition export_log :: "(real \<Rightarrow> datetime) \<Rightarrow> ustr \<Rightarrow> bool \<Rightarrow> app \<Rightarrow> app" where
  "export_log tz path io_ok s =
     (if messages s = [] then s\<lparr>dialogs := dialogs s @ [ExportNothing]\<rparr>
      else if path = [] then s
      else if \<not> io_ok then s
      else s\<lparr>files := files s @ [(path, export_text tz (messages s))],
             dialogs := dialogs s @ [ExportSaved path]\<rparr>)"

definition clear_log :: "bool \<Rightarrow> app \<Rightarrow> app" where
  "clear_log confirmed s =
     (if messages s = [] then s
      else if confirmed then s\<lparr>messages := []\<rparr>
      else s)"

subsection \<open>Context menu handlers\<close>

text \<open>
  Both handlers read the transcript line under the last right click. \<open>None\<close> stands for
  the read raising (no right click yet), which the handler swallows.
\<close>

definition ctx_replay :: "ustr option \<Rightarrow> app \<Rightarrow> app" where
  "ctx_replay line s =
     (case line of
        None \<Rightarrow> s
      | Some l \<Rightarrow>
          (let txt = (if RBRACKET \<in> set l then strip (split1_after RBRACKET l) else strip l)
           in if txt \<noteq> [] then speak_text txt s else s))"

definition ctx_delete :: "ustr option \<Rightarrow> app \<Rightarrow> app" where
  "ctx_delete line s =
     (case line of
        None \<Rightarrow> s
      | Some l \<Rightarrow>
          (case line_msg_id l of
             None \<Rightarrow> s
           | Some k \<Rightarrow> s\<lparr>messages := filter (\<lambda>m. msg_id m \<noteq> k) (messages s)\<rparr>))"

subsection \<open>Event helpers\<close>

definition on_enter_send :: "bool \<Rightarrow> real \<Rightarrow> app \<Rightarrow> app" where
  "on_enter_send shift now s = (if shift then s else send_message now s)"

text \<open>\<open>_on_shift_enter_newline\<close>, with the insertion cursor at offset \<open>pos\<close>.\<close>

definition on_shift_enter_newline :: "nat \<Rightarrow> app \<Rightarrow> app" where
  "on_shift_enter_newline pos s =
     s\<lparr>txt_input := take pos (txt_input s) @ [NL] @ drop pos (txt_input s)\<rparr>"

definition poll_worker_done :: "app \<Rightarrow> app" where
  "poll_worker_done s =
     (case current_worker s of
        None \<Rightarrow> s
      | Some i \<Rightarrow>
          (let w = workers s ! i
           in if is_alive w then s
              else s\<lparr>dialogs := dialogs s @ (case exc w of None \<Rightarrow> [] | Some e \<Rightarrow> [SpeakFailed e]),
                     current_worker := None,
                     status := Idle\<rparr>))"

definition destroy :: "app \<Rightarrow> app" where
  "destroy s = stop_speaking True s"

subsection \<open>The steps of the system\<close>

text \<open>A step of the thread of worker \<open>i\<close>; what leaves \<open>run\<close> ends with the thread.\<close>

definition thread_event :: "nat \<Rightarrow> tstep \<Rightarrow> app \<Rightarrow> app" where
  "thread_event i t s =
     (if i < length (workers s)
      then s\<lparr>workers := (workers s)[i := fst (thread_step t (workers s ! i))]\<rparr>
      else s)"

text \<open>
  Everything that can happen: the handlers of the interactive thread, each with what
  it reads from outside (the clock, dialogs, the transcript line), the user changing a
  control, and the steps of the worker threads.
\<close>

datatype event =
  SendMessage real
| EnterKey bool real
| ShiftEnter nat
| Edit ustr
| StopSpeaking
| ReplayLast
| ExportLog ustr bool
| ClearLog bool
| CtxReplay "ustr option"
| CtxDelete "ustr option"
| Poll
| SelectVoice ustr
| SetRate real
| SetVolume real
| SetAutoSpeak bool
| Destroy
| Thread nat tstep

fun step :: "(real \<Rightarrow> datetime) \<Rightarrow> event \<Rightarrow> app \<Rightarrow> app" where
  "step tz (SendMessage now) s = send_message now s"
| "step tz (EnterKey shift now) s = on_enter_send shift now s"
| "step tz (ShiftEnter pos) s = on_shift_enter_newline pos s"
| "step tz (Edit txt) s = s\<lparr>txt_input := txt\<rparr>"
| "step tz StopSpeaking s = stop_speaking True s"
| "step tz ReplayLast s = replay_last s"
| "step tz (ExportLog path io_ok) s = export_log tz path io_ok s"
| "step tz (ClearLog confirmed) s = clear_log confirmed s"
| "step tz (CtxReplay line) s = ctx_replay line s"
| "step tz (CtxDelete line) s = ctx_delete line s"
| "step tz Poll s = poll_worker_done s"
| "step tz (SelectVoice label) s = s\<lparr>cmb_voice := label\<rparr>"
| "step tz (SetRate r) s = s\<lparr>sld_rate := r\<rparr>"
| "step tz (SetVolume v) s = s\<lparr>sld_volume := v\<rparr>"
| "step tz (SetAutoSpeak b) s = s\<lparr>auto_speak := b\<rparr>"
| "step tz Destroy s = destroy s"
| "step tz (Thread i t) s = thread_event i t s"

fun run_events :: "(real \<Rightarrow> datetime) \<Rightarrow> event list \<Rightarrow> app \<Rightarrow> app" where
  "run_events tz [] s = s"
| "run_events tz (e # es) s = run_events tz es (step tz e s)"

inductive reachable :: "(real \<Rightarrow> datetime) \<Rightarrow> app \<Rightarrow> bool" for tz where
  reachable_init: "reachable tz (init_app p)"
| reachable_step: "reachable tz s \<Longrightarrow> reachable tz (step tz e s)"

section \<open>Reading an export back\<close>

text \<open>
  The program never reads an exported file. To state what a reader can recover, the
  lines of a file are taken as the pieces between the newlines \<open>export_log\<close> writes
  (\<open>split_on\<close> is \<open>str.split(sep)\<close>), and \<open>read_entry\<close> is a reader for the documented
  line format: the id up to the first space, the time stamp up to the closing bracket,
  the text after the bracket and one space.
\<close>

fun split_on :: "nat \<Rightarrow> ustr \<Rightarrow> ustr list" where
  "split_on sep [] = [[]]"
| "split_on sep (c # cs) =
     (if c = sep then [] # split_on sep cs
      else (case split_on sep cs of [] \<Rightarrow> [[c]] | l # ls \<Rightarrow> (c # l) # ls))"

definition file_lines :: "ustr \<Rightarrow> ustr list" where
  "file_lines c = (let ls = split_on NL c in if last ls = [] then butlast ls else ls)"

definition read_entry :: "ustr \<Rightarrow> (int \<times> ustr \<times> ustr) option" where
  "read_entry l =
     (case l of
        [] \<Rightarrow> None
      | c # r \<Rightarrow>
          (let id_part = takeWhile (\<lambda>x. x \<noteq> SP) r;
               r1 = dropWhile (\<lambda>x. x \<noteq> SP) r;
               stamp = takeWhile (\<lambda>x. x \<noteq> RBRACKET) (drop 1 r1);
               r2 = dropWhile (\<lambda>x. x \<noteq> RBRACKET) (drop 1 r1)
           in if c \<noteq> LBRACKET \<or> r1 = [] \<or> take 2 r2 \<noteq> [RBRACKET, SP] then None
              else map_option (\<lambda>k. (k, stamp, drop 2 r2)) (py_int id_part)))"

definition read_export :: "ustr \<Rightarrow> (int \<times> ustr \<times> ustr) option list" where
  "read_export c = map read_entry (file_lines c)"

section \<open>Invariants of the reachable states\<close>

text \<open>
  The history: ids increase along the list and lie below the counter, and every text
  is a non-empty stripped string.
\<close>

definition msgs_inv :: "app \<Rightarrow> bool" where
  "msgs_inv s \<longleftrightarrow>
     sorted_wrt (<) (map msg_id (messages s)) \<and> 1 \<le> next_id s \<and>
     (\<forall>m\<in>set (messages s). 1 \<le> msg_id m \<and> msg_id m < next_id s \<and>
        m_text m \<noteq> [] \<and> \<not> is_space (hd (m_text m)) \<and> \<not> is_space (last (m_text m)))"

text \<open>
  The workers: the current reference points to a worker; a worker whose thread runs
  has captured no failure, and if its stop flag is clear it is the current one.
\<close>

definition workers_inv :: "app \<Rightarrow> bool" where
  "workers_inv s \<longleftrightarrow>
     (\<forall>i. current_worker s = Some i \<longrightarrow> i < length (workers s)) \<and>
     (\<forall>i<length (workers s). is_alive (workers s ! i) \<longrightarrow>
        exc (workers s ! i) = None \<and>
        (\<not> stop_flag (workers s ! i) \<longrightarrow> current_worker s = Some i))"

section \<open>Lemmas on text\<close>

lemma strip_all_space: "\<forall>c\<in>set s. is_space c \<Longrightarrow> strip s = []"
proof -
  assume "\<forall>c\<in>set s. is_space c"
  hence h: "dropWhile is_space s = []" by simp
  show ?thesis unfolding strip_def h by simp
qed

lemma dropWhile_hd: "dropWhile P xs \<noteq> [] \<Longrightarrow> \<not> P (hd (dropWhile P xs))"
  by (rule hd_dropWhile)

lemma dropWhile_last: "dropWhile P xs \<noteq> [] \<Longrightarrow> last (dropWhile P xs) = last xs"
  by (induction xs) (auto split: if_splits)

lemma strip_last: "strip s \<noteq> [] \<Longrightarrow> \<not> is_space (last (strip s))"
proof -
  assume ne: "strip s \<noteq> []"
  hence "dropWhile is_space (rev (dropWhile is_space s)) \<noteq> []" by (simp add: strip_def)
  hence "\<not> is_space (hd (dropWhile is_space (rev (dropWhile is_space s))))" by (rule dropWhile_hd)
  thus ?thesis using ne by (simp add: strip_def last_rev)
qed

lemma strip_hd: "strip s \<noteq> [] \<Longrightarrow> \<not> is_space (hd (strip s))"
proof -
  assume ne: "strip s \<noteq> []"
  define a where "a = dropWhile is_space s"
  have b: "dropWhile is_space (rev a) \<noteq> []" using ne by (simp add: strip_def a_def)
  hence a: "a \<noteq> []" by auto
  have "\<not> is_space (hd a)" unfolding a_def using a[unfolded a_def] by (rule dropWhile_hd)
  moreover have "last (dropWhile is_space (rev a)) = last (rev a)" using b by (rule dropWhile_last)
  hence "hd (strip s) = hd a" using a b by (simp add: strip_def a_def hd_rev last_rev)
  ultimately show ?thesis by simp
qed

lemma dropWhile_none: "\<forall>c\<in>set s. \<not> P c \<Longrightarrow> dropWhile P s = s"
  by (cases s) auto

lemma strip_no_space: "\<forall>c\<in>set s. \<not> is_space c \<Longrightarrow> strip s = s"
proof -
  assume a: "\<forall>c\<in>set s. \<not> is_space c"
  have 1: "dropWhile is_space s = s" using a by (rule dropWhile_none)
  have "\<forall>c\<in>set (rev s). \<not> is_space c" using a by simp
  hence 2: "dropWhile is_space (rev s) = rev s" by (rule dropWhile_none)
  show ?thesis by (simp add: strip_def 1 2)
qed

lemma dec_digits: "\<forall>c\<in>set (dec n). is_digit c"
proof (induction n rule: dec.induct)
  case (1 n)
  show ?case
  proof (cases "n < 10")
    case True
    thus ?thesis by (subst dec.simps) (simp add: is_digit_def)
  next
    case False
    have "n mod 10 < 10" by simp
    hence "is_digit (ZERO + n mod 10)" unfolding is_digit_def by linarith
    thus ?thesis using 1 False by (subst dec.simps) simp
  qed
qed

lemma dec_nonempty: "dec n \<noteq> []"
  by (subst dec.simps) simp

lemma int_digits_fold:
  "\<forall>c\<in>set ds. is_digit c \<Longrightarrow> int_digits acc ds = Some (fold (\<lambda>c a. a * 10 + (c - ZERO)) ds acc)"
  by (induction ds arbitrary: acc) (auto simp: is_digit_def)

lemma fold_dec: "fold (\<lambda>c a. a * 10 + (c - ZERO)) (dec n) 0 = n"
proof (induction n rule: dec.induct)
  case (1 n)
  show ?case
  proof (cases "n < 10")
    case True
    thus ?thesis by (subst dec.simps) simp
  next
    case False
    thus ?thesis using 1 by (subst dec.simps) simp
  qed
qed

lemma fold_zeros: "fold (\<lambda>c a. a * 10 + (c - ZERO)) (replicate k ZERO) 0 = (0::nat)"
  by (induction k) auto

lemma pad0_digits: "\<forall>c\<in>set (pad0 w (dec n)). is_digit c"
  using dec_digits[of n] by (auto simp: pad0_def is_digit_def)

lemma pad0_nonempty: "pad0 w (dec n) \<noteq> []"
  by (simp add: pad0_def dec_nonempty)

lemma int_unsigned_pad0: "int_unsigned (pad0 w (dec n)) = Some n"
proof -
  have d: "\<forall>c\<in>set (pad0 w (dec n)). is_digit c" by (rule pad0_digits)
  obtain c cs where cs: "pad0 w (dec n) = c # cs" using pad0_nonempty[of w n] by (cases "pad0 w (dec n)") auto
  have "is_digit c" using d cs by simp
  hence "int_unsigned (pad0 w (dec n)) = int_digits 0 (pad0 w (dec n))"
    by (simp add: int_unsigned_def cs)
  also have "\<dots> = Some (fold (\<lambda>c a. a * 10 + (c - ZERO)) (pad0 w (dec n)) 0)"
    using d by (rule int_digits_fold)
  also have "fold (\<lambda>c a. a * 10 + (c - ZERO)) (pad0 w (dec n)) 0 = n"
    unfolding pad0_def fold_append o_apply fold_zeros fold_dec ..
  finally show ?thesis .
qed

lemma digit_not_space: "is_digit c \<Longrightarrow> \<not> is_space c"
  by (auto simp: is_digit_def is_space_def)

lemma fmt_03d_chars: "\<forall>c\<in>set (fmt_03d k). is_digit c \<or> c = MINUS"
  using pad0_digits by (auto simp: fmt_03d_def)

lemma minus_not_space: "\<not> is_space MINUS"
  by (simp add: is_space_def)

lemma fmt_03d_no_space: "\<forall>c\<in>set (fmt_03d k). \<not> is_space c"
proof
  fix c assume "c \<in> set (fmt_03d k)"
  hence "is_digit c \<or> c = MINUS" using fmt_03d_chars by blast
  thus "\<not> is_space c" using digit_not_space minus_not_space by blast
qed

lemma py_int_fmt_03d: "py_int (fmt_03d k) = Some k"
proof -
  have s: "strip (fmt_03d k) = fmt_03d k" using fmt_03d_no_space by (rule strip_no_space)
  show ?thesis
  proof (cases "k < 0")
    case True
    thus ?thesis by (simp add: py_int_def s) (simp add: fmt_03d_def int_unsigned_pad0)
  next
    case False
    obtain c cs where cs: "pad0 3 (dec (nat k)) = c # cs"
      using pad0_nonempty[of 3 "nat k"] by (cases "pad0 3 (dec (nat k))") auto
    have "is_digit c" using pad0_digits[of 3 "nat k"] cs by simp
    hence c: "c \<noteq> MINUS" "c \<noteq> PLUS" by (auto simp: is_digit_def)
    have "int_unsigned (c # cs) = Some (nat k)" using int_unsigned_pad0[of 3 "nat k"] cs by simp
    thus ?thesis using False c by (simp add: py_int_def s) (simp add: fmt_03d_def cs)
  qed
qed

lemma fmt_03d_length: "3 \<le> length (fmt_03d k)"
  by (auto simp: fmt_03d_def pad0_def)

lemma dec_length_small: "n < 10 \<Longrightarrow> length (dec n) = 1"
  by (subst dec.simps) simp

lemma dec_length_lt1000: "n < 1000 \<Longrightarrow> length (dec n) \<le> 3"
  apply (subst dec.simps)
  apply (simp)
  apply (subst dec.simps)
  apply (simp)
  apply (subst dec.simps)
  apply (auto)
  done

lemma fmt_03d_length3: "0 \<le> k \<Longrightarrow> k < 1000 \<Longrightarrow> length (fmt_03d k) = 3"
  using dec_length_lt1000[of "nat k"] by (auto simp: fmt_03d_def pad0_def)

lemma split_on_nonempty: "split_on sep s \<noteq> []"
  by (induction s) (auto split: list.splits)

lemma split_on_line: "sep \<notin> set l \<Longrightarrow> split_on sep (l @ sep # r) = l # split_on sep r"
  by (induction l) (auto split: list.splits simp: split_on_nonempty)

lemma split_on_lines:
  "\<forall>l\<in>set ls. sep \<notin> set l \<Longrightarrow> split_on sep (concat (map (\<lambda>l. l @ [sep]) ls)) = ls @ [[]]"
  by (induction ls) (auto simp: split_on_line)

lemma file_lines_terminated:
  "\<forall>l\<in>set ls. NL \<notin> set l \<Longrightarrow> file_lines (concat (map (\<lambda>l. l @ [NL]) ls)) = ls"
  by (simp add: file_lines_def split_on_lines)

lemma strftime_hms_chars: "\<forall>c\<in>set (strftime_hms d). is_digit c \<or> c = COLON"
  using pad0_digits by (auto simp: strftime_hms_def)

lemma strftime_full_chars:
  "\<forall>c\<in>set (strftime_full d). is_digit c \<or> c = COLON \<or> c = MINUS \<or> c = SP"
  using pad0_digits strftime_hms_chars[of d] by (auto simp: strftime_full_def)

lemma strftime_full_no_nl: "NL \<notin> set (strftime_full d)"
  using strftime_full_chars[of d] by (auto simp: is_digit_def)

lemma strftime_full_no_rbracket: "RBRACKET \<notin> set (strftime_full d)"
  using strftime_full_chars[of d] by (auto simp: is_digit_def)

lemma strftime_hms_no_rbracket: "RBRACKET \<notin> set (strftime_hms d)"
  using strftime_hms_chars[of d] by (auto simp: is_digit_def)

lemma fmt_03d_plain: "NL \<notin> set (fmt_03d k)" "RBRACKET \<notin> set (fmt_03d k)" "SP \<notin> set (fmt_03d k)"
  using fmt_03d_chars[of k] by (auto simp: is_digit_def)

lemma export_line_no_nl: "NL \<notin> set (m_text m) \<Longrightarrow> NL \<notin> set (export_line tz m)"
  by (simp add: export_line_def fmt_03d_plain strftime_full_no_nl)

lemma file_lines_export:
  assumes "\<forall>m\<in>set ms. NL \<notin> set (m_text m)"
  shows "file_lines (export_text tz ms) = map (export_line tz) ms"
proof -
  have "export_text tz ms = concat (map (\<lambda>l. l @ [NL]) (map (export_line tz) ms))"
    by (simp add: export_text_def comp_def)
  moreover have "\<forall>l\<in>set (map (export_line tz) ms). NL \<notin> set l"
    using assms export_line_no_nl by auto
  ultimately show ?thesis using file_lines_terminated by metis
qed

lemma takeWhile_until: "\<forall>x\<in>set xs. x \<noteq> d \<Longrightarrow> takeWhile (\<lambda>x. x \<noteq> d) (xs @ d # ys) = xs"
  by (induction xs) auto

lemma dropWhile_until: "\<forall>x\<in>set xs. x \<noteq> d \<Longrightarrow> dropWhile (\<lambda>x. x \<noteq> d) (xs @ d # ys) = d # ys"
  by (induction xs) auto

lemma read_entry_export_line:
  "read_entry (export_line tz m) = Some (msg_id m, strftime_full (tz (ts m)), m_text m)"
proof -
  let ?i = "fmt_03d (msg_id m)" and ?t = "strftime_full (tz (ts m))"
  have i: "\<forall>x\<in>set ?i. x \<noteq> SP" using fmt_03d_plain(3) by metis
  have t: "\<forall>x\<in>set ?t. x \<noteq> RBRACKET" using strftime_full_no_rbracket by metis
  have e: "export_line tz m = LBRACKET # (?i @ SP # (?t @ RBRACKET # SP # m_text m))"
    by (simp add: export_line_def)
  show ?thesis
    unfolding e read_entry_def
    by (simp add: Let_def takeWhile_until[OF i] dropWhile_until[OF i]
        takeWhile_until[OF t] dropWhile_until[OF t] py_int_fmt_03d)
qed

lemma read_export_export_text:
  assumes "\<forall>m\<in>set ms. NL \<notin> set (m_text m)"
  shows "read_export (export_text tz ms)
         = map (\<lambda>m. Some (msg_id m, strftime_full (tz (ts m)), m_text m)) ms"
  by (simp add: read_export_def file_lines_export[OF assms] read_entry_export_line)

lemma first_token_head:
  assumes "xs \<noteq> []" "\<forall>x\<in>set xs. \<not> is_space x" "is_space d"
  shows "first_token (xs @ d # ys) = Some xs"
proof -
  obtain x xs' where xs: "xs = x # xs'" using assms(1) by (cases xs) auto
  have "\<not> is_space x" using assms(2) xs by simp
  hence 1: "dropWhile is_space (xs @ d # ys) = xs @ d # ys" by (simp add: xs)
  have 2: "takeWhile (\<lambda>c. \<not> is_space c) (xs @ d # ys) = xs"
    using assms(2,3) by (induction xs) auto
  show ?thesis by (simp add: first_token_def Let_def 1 2 assms(1))
qed

lemma line_msg_id_log_line: "line_msg_id (log_line tz m) = Some (msg_id m)"
proof -
  let ?i = "fmt_03d (msg_id m)" and ?t = "strftime_hms (tz (ts m))"
  let ?pre = "LBRACKET # (?i @ SP # ?t)"
  have e: "log_line tz m = ?pre @ RBRACKET # SP # m_text m"
    by (simp add: log_line_def)
  have p: "\<forall>x\<in>set ?pre. x \<noteq> RBRACKET"
    using fmt_03d_plain(2)[of "msg_id m"] strftime_hms_no_rbracket[of "tz (ts m)"] by auto
  have b: "split1_before RBRACKET (log_line tz m) = ?pre"
    unfolding e split1_before_def using p by (rule takeWhile_until)
  have "\<forall>x\<in>set (LBRACKET # ?i). \<not> is_space x"
    using fmt_03d_no_space[of "msg_id m"] by (simp add: is_space_def)
  moreover have "is_space SP" by (simp add: is_space_def)
  ultimately have "first_token ((LBRACKET # ?i) @ SP # ?t) = Some (LBRACKET # ?i)"
    by (intro first_token_head) simp_all
  hence f: "first_token ?pre = Some (LBRACKET # ?i)" by simp
  show ?thesis
    unfolding line_msg_id_def b f
    by (simp add: py_int_fmt_03d) (simp add: log_line_def)
qed

lemma stop_speaking_frame [simp]:
  "messages (stop_speaking j s) = messages s"
  "next_id (stop_speaking j s) = next_id s"
  "current_worker (stop_speaking j s) = current_worker s"
  "dialogs (stop_speaking j s) = dialogs s"
  "length (workers (stop_speaking j s)) = length (workers s)"
  "auto_speak (stop_speaking j s) = auto_speak s"
  "txt_input (stop_speaking j s) = txt_input s"
  by (auto simp: stop_speaking_def split: option.splits)

lemma spawn_worker_frame [simp]:
  "messages (spawn_worker t s) = messages s"
  "next_id (spawn_worker t s) = next_id s"
  "dialogs (spawn_worker t s) = dialogs s"
  "current_worker (spawn_worker t s) = Some (length (workers s))"
  "length (workers (spawn_worker t s)) = Suc (length (workers s))"
  by (auto simp: spawn_worker_def Let_def)

lemma speak_text_frame [simp]:
  "messages (speak_text t s) = messages s"
  "next_id (speak_text t s) = next_id s"
  "dialogs (speak_text t s) = dialogs s"
  "current_worker (speak_text t s) = Some (length (workers s))"
  "length (workers (speak_text t s)) = Suc (length (workers s))"
  by (auto simp: speak_text_def)

lemma send_message_msgs:
  "messages (send_message now s) =
     (if strip (txt_input_get s) = [] then messages s
      else messages s @ [\<lparr>msg_id = next_id s, ts = now, m_text = strip (txt_input_get s)\<rparr>])"
  "next_id (send_message now s) = (if strip (txt_input_get s) = [] then next_id s else next_id s + 1)"
  "dialogs (send_message now s) = dialogs s"
  by (auto simp: send_message_def Let_def)

lemma msgs_inv_append:
  assumes "msgs_inv s" "t \<noteq> []" "\<not> is_space (hd t)" "\<not> is_space (last t)"
    and "messages s' = messages s @ [\<lparr>msg_id = next_id s, ts = now, m_text = t\<rparr>]"
    and "next_id s' = next_id s + 1"
  shows "msgs_inv s'"
  using assms unfolding msgs_inv_def
  by (auto simp: sorted_wrt_append)

lemma msgs_inv_same:
  "msgs_inv s \<Longrightarrow> messages s' = messages s \<Longrightarrow> next_id s' = next_id s \<Longrightarrow> msgs_inv s'"
  by (simp add: msgs_inv_def)

lemma msgs_inv_filter:
  "msgs_inv s \<Longrightarrow> messages s' = filter P (messages s) \<Longrightarrow> next_id s' = next_id s \<Longrightarrow> msgs_inv s'"
  by (auto simp: msgs_inv_def sorted_wrt_filter sorted_wrt_map)

lemma msgs_inv_send: "msgs_inv s \<Longrightarrow> msgs_inv (send_message now s)"
proof (cases "strip (txt_input_get s) = []")
  case True
  assume "msgs_inv s"
  thus ?thesis using True by (simp add: send_message_def)
next
  case False
  assume i: "msgs_inv s"
  show ?thesis
    by (rule msgs_inv_append[OF i False strip_hd[OF False] strip_last[OF False]])
       (simp_all add: send_message_msgs False)
qed

lemma msgs_inv_step: "msgs_inv s \<Longrightarrow> msgs_inv (step tz e s)"
proof (cases e)
  case (SendMessage now)
  assume "msgs_inv s" thus ?thesis by (simp add: SendMessage msgs_inv_send)
next
  case (EnterKey shift now)
  assume "msgs_inv s" thus ?thesis by (simp add: EnterKey on_enter_send_def msgs_inv_send)
next
  case (ClearLog c)
  assume "msgs_inv s" thus ?thesis by (auto simp: ClearLog clear_log_def msgs_inv_def)
next
  case (CtxDelete l)
  assume i: "msgs_inv s"
  show ?thesis unfolding CtxDelete step.simps ctx_delete_def
    by (auto split: option.splits intro: i msgs_inv_filter[OF i])
next
  case (Thread i t)
  assume "msgs_inv s" thus ?thesis
    by (auto simp: Thread thread_event_def elim: msgs_inv_same)
qed (auto simp: on_shift_enter_newline_def replay_last_def export_log_def ctx_replay_def
      poll_worker_done_def destroy_def Let_def split: option.splits elim: msgs_inv_same)

lemma msgs_inv_init: "msgs_inv (init_app p)"
  by (simp add: msgs_inv_def init_app_def Let_def)

lemma reachable_msgs_inv: "reachable tz s \<Longrightarrow> msgs_inv s"
  by (induction rule: reachable.induct) (auto intro: msgs_inv_init msgs_inv_step)

section \<open>The claims\<close>

text \<open>
  C4. When the input widget holds only whitespace (or nothing), \<open>send_message\<close> changes
  nothing: no message is appended, no id is assigned and no worker is started. The
  same holds for the Enter key, which calls \<open>send_message\<close>.
\<close>

theorem blank_input_is_noop:
  assumes "\<forall>c\<in>set (txt_input s). is_space c"
  shows "send_message now s = s \<and> on_enter_send shift now s = s"
proof -
  have "is_space NL" by (simp add: is_space_def)
  hence "\<forall>c\<in>set (txt_input_get s). is_space c"
    using assms by (simp add: txt_input_get_def)
  hence "strip (txt_input_get s) = []" by (rule strip_all_space)
  thus ?thesis by (simp add: send_message_def on_enter_send_def)
qed

theorem blank_input_is_noop_witness:
  "list_all is_space (txt_input ((init_app (Probed [] 180 1 []))\<lparr>txt_input := [SP, 9, 12288]\<rparr>))
   \<and> send_message 5 ((init_app (Probed [] 180 1 []))\<lparr>txt_input := [SP, 9, 12288]\<rparr>)
       = (init_app (Probed [] 180 1 []))\<lparr>txt_input := [SP, 9, 12288]\<rparr>"
proof -
  have h: "\<forall>c\<in>set (txt_input ((init_app (Probed [] 180 1 []))\<lparr>txt_input := [SP, 9, 12288]\<rparr>)). is_space c"
    by (simp add: is_space_def)
  from blank_input_is_noop [OF h, of 5] h show ?thesis by (simp add: list_all_iff)
qed

end
